theory Spec2Isabelle
  imports Main
begin

section \<open>Values and objects of the Go program\<close>

text \<open>
  Package \<open>dbratelimit\<close> (file \<open>main.go\<close>) is a facade over two objects of other
  packages: a \<open>*sql.DB\<close> of \<open>database/sql\<close> and a \<open>*rate.Limiter\<close> of
  \<open>golang.org/x/time/rate\<close>. A Go pointer is \<open>nil\<close> or the address of an object; the
  objects live in the heaps of the \<open>world\<close> below, one heap per type, an address being an
  index into the heap of its type.
\<close>

type_synonym addr = nat
type_synonym ptr = "addr option"

text \<open>
  A Go \<open>error\<close> is an interface value: \<open>nil\<close> is \<open>None\<close>. \<open>Canceled\<close> and
  \<open>DeadlineExceeded\<close> are the two errors of package \<open>context\<close>; every other error is told
  by its text.
\<close>

datatype error = Canceled | DeadlineExceeded | ErrorString string

text \<open>A call returns, or panics (a nil pointer is dereferenced).\<close>

datatype 'x outcome = Panic | Return 'x

text \<open>
  What \<open>database/sql\<close> hands out. \<open>*sql.Rows\<close>, \<open>sql.Result\<close>, \<open>*sql.Stmt\<close> and
  \<open>*sql.Conn\<close> are opaque to the facade. A \<open>*sql.Row\<close> is the struct of the library:
  the deferred error that \<open>Scan\<close> and \<open>Err\<close> report, or the rows to read.
\<close>

datatype sql_Rows = Rows_ref nat
datatype sql_Result = Result_ref nat
datatype sql_Stmt = Stmt_ref nat
datatype sql_Conn = Conn_ref nat
datatype sql_Row = Row (Row_err: "error option") (Row_rows: "sql_Rows option")

text \<open>
  The methods of \<open>*sql.DB\<close> that the facade calls, with their arguments: \<open>'c\<close> is
  \<open>context.Context\<close>, \<open>'a\<close> the type of a bound argument (\<open>any\<close>).
\<close>

datatype ('c, 'a) dbop =
    QueryContext_op 'c string "'a list"
  | QueryRowContext_op 'c string "'a list"
  | ExecContext_op 'c string "'a list"
  | PrepareContext_op 'c string
  | Close_op
  | Ping_op
  | Conn_op 'c

text \<open>
  The call counter on the collaborators: every call that reaches a limiter or a
  database handle is logged with the address of its receiver and its arguments.
\<close>

datatype ('c, 'a) call =
    Wait_call addr 'c
  | DB_call addr "('c, 'a) dbop"

text \<open>\<open>type RateLimitedDB struct { db *sql.DB; limiter *rate.Limiter }\<close>\<close>

record RateLimitedDB =
  db :: ptr
  limiter :: ptr

text \<open>
  The world: the heap of facades, the heap of limiters (\<open>'l\<close> is the state of a
  \<open>rate.Limiter\<close>, its clock included), the heap of database handles (\<open>'d\<close> is the state
  of a \<open>sql.DB\<close> and of the database behind it), and the log of calls.
\<close>

record ('c, 'a, 'l, 'd) world =
  facades :: "RateLimitedDB list"
  limiters :: "'l list"
  dbs :: "'d list"
  calls :: "('c, 'a) call list"

text \<open>
  The two collaborators, which are not code of this package, as parameters: what each
  of their functions returns and how it changes the state of its receiver. \<open>'r\<close> is
  \<open>rate.Limit\<close> (a \<open>float64\<close>); the burst is a Go \<open>int\<close>, which the package only hands on.
\<close>

record ('c, 'a, 'r, 'l, 'd) env =
  rate_NewLimiter :: "'r \<Rightarrow> int \<Rightarrow> 'l"
  Limiter_Wait :: "'c \<Rightarrow> 'l \<Rightarrow> error option \<times> 'l"
  DB_QueryContext :: "'c \<Rightarrow> string \<Rightarrow> 'a list \<Rightarrow> 'd \<Rightarrow> (sql_Rows option \<times> error option) \<times> 'd"
  DB_QueryRowContext :: "'c \<Rightarrow> string \<Rightarrow> 'a list \<Rightarrow> 'd \<Rightarrow> sql_Row option \<times> 'd"
  DB_ExecContext :: "'c \<Rightarrow> string \<Rightarrow> 'a list \<Rightarrow> 'd \<Rightarrow> (sql_Result option \<times> error option) \<times> 'd"
  DB_PrepareContext :: "'c \<Rightarrow> string \<Rightarrow> 'd \<Rightarrow> (sql_Stmt option \<times> error option) \<times> 'd"
  DB_Close :: "'d \<Rightarrow> error option \<times> 'd"
  DB_Ping :: "'d \<Rightarrow> error option \<times> 'd"
  DB_Conn :: "'c \<Rightarrow> 'd \<Rightarrow> (sql_Conn option \<times> error option) \<times> 'd"

section \<open>Calls on the collaborators\<close>

text \<open>Reading through a pointer: \<open>None\<close> for \<open>nil\<close> and for an address with no object.\<close>

fun deref :: "'x list \<Rightarrow> ptr \<Rightarrow> 'x option" where
  "deref h None = None"
| "deref h (Some a) = (if a < length h then Some (h ! a) else None)"

text \<open>
  \<open>lim.Wait(ctx)\<close>: the methods of \<open>*rate.Limiter\<close> read their receiver, so a nil
  receiver panics; otherwise the limiter at the address moves on and the call is logged.
\<close>

definition rate_Limiter_Wait ::
  "('c, 'a, 'r, 'l, 'd) env \<Rightarrow> ptr \<Rightarrow> 'c \<Rightarrow> ('c, 'a, 'l, 'd) world
    \<Rightarrow> error option outcome \<times> ('c, 'a, 'l, 'd) world" where
  "rate_Limiter_Wait E p ctx w =
     (case p of
        None \<Rightarrow> (Panic, w)
      | Some a \<Rightarrow>
          if a < length (limiters w)
          then (let (e, l') = Limiter_Wait E ctx (limiters w ! a)
                in (Return e,
                    w\<lparr>limiters := (limiters w)[a := l'], calls := calls w @ [Wait_call a ctx]\<rparr>))
          else (Panic, w))"

text \<open>
  A method of \<open>*sql.DB\<close> called on the handle \<open>p\<close>: \<open>f\<close> is what the method does to the
  state of the handle, \<open>c\<close> the entry for the log.
\<close>

definition sql_DB_call ::
  "('d \<Rightarrow> 'x \<times> 'd) \<Rightarrow> ('c, 'a) dbop \<Rightarrow> ptr \<Rightarrow> ('c, 'a, 'l, 'd) world
    \<Rightarrow> 'x outcome \<times> ('c, 'a, 'l, 'd) world" where
  "sql_DB_call f c p w =
     (case p of
        None \<Rightarrow> (Panic, w)
      | Some a \<Rightarrow>
          if a < length (dbs w)
          then (let (x, d') = f (dbs w ! a)
                in (Return x, w\<lparr>dbs := (dbs w)[a := d'], calls := calls w @ [DB_call a c]\<rparr>))
          else (Panic, w))"

definition sql_DB_QueryContext where
  "sql_DB_QueryContext E p ctx query args =
     sql_DB_call (DB_QueryContext E ctx query args) (QueryContext_op ctx query args) p"

definition sql_DB_QueryRowContext where
  "sql_DB_QueryRowContext E p ctx query args =
     sql_DB_call (DB_QueryRowContext E ctx query args) (QueryRowContext_op ctx query args) p"

definition sql_DB_ExecContext where
  "sql_DB_ExecContext E p ctx query args =
     sql_DB_call (DB_ExecContext E ctx query args) (ExecContext_op ctx query args) p"

definition sql_DB_PrepareContext where
  "sql_DB_PrepareContext E p ctx query =
     sql_DB_call (DB_PrepareContext E ctx query) (PrepareContext_op ctx query) p"

definition sql_DB_Close where
  "sql_DB_Close E p = sql_DB_call (DB_Close E) Close_op p"

definition sql_DB_Ping where
  "sql_DB_Ping E p = sql_DB_call (DB_Ping E) Ping_op p"

definition sql_DB_Conn where
  "sql_DB_Conn E p ctx = sql_DB_call (DB_Conn E ctx) (Conn_op ctx) p"

text \<open>\<open>rate.NewLimiter(limit, burst)\<close> allocates a limiter and returns its address.\<close>

definition rate_NewLimiter_call ::
  "('c, 'a, 'r, 'l, 'd) env \<Rightarrow> 'r \<Rightarrow> int \<Rightarrow> ('c, 'a, 'l, 'd) world
    \<Rightarrow> ptr \<times> ('c, 'a, 'l, 'd) world" where
  "rate_NewLimiter_call E limit burst w =
     (Some (length (limiters w)),
      w\<lparr>limiters := limiters w @ [rate_NewLimiter E limit burst]\<rparr>)"

section \<open>Package dbratelimit\<close>

text \<open>
  \<open>func Wrap(db *sql.DB, limit rate.Limit, burst int) *RateLimitedDB\<close>: a new limiter,
  then a new facade holding the handle as given and the limiter.
\<close>

definition Wrap ::
  "('c, 'a, 'r, 'l, 'd) env \<Rightarrow> ptr \<Rightarrow> 'r \<Rightarrow> int \<Rightarrow> ('c, 'a, 'l, 'd) world
    \<Rightarrow> ptr \<times> ('c, 'a, 'l, 'd) world" where
  "Wrap E sqldb limit burst w =
     (let (lim, w1) = rate_NewLimiter_call E limit burst w
      in (Some (length (facades w1)),
          w1\<lparr>facades := facades w1 @ [\<lparr>db = sqldb, limiter = lim\<rparr>]\<rparr>))"

text \<open>\<open>func (r *RateLimitedDB) wait(ctx) error { return r.limiter.Wait(ctx) }\<close>\<close>

definition wait ::
  "('c, 'a, 'r, 'l, 'd) env \<Rightarrow> ptr \<Rightarrow> 'c \<Rightarrow> ('c, 'a, 'l, 'd) world
    \<Rightarrow> error option outcome \<times> ('c, 'a, 'l, 'd) world" where
  "wait E r ctx w =
     (case deref (facades w) r of
        None \<Rightarrow> (Panic, w)
      | Some f \<Rightarrow> rate_Limiter_Wait E (limiter f) ctx w)"

text \<open>
  \<open>QueryContext\<close>, \<open>ExecContext\<close> and \<open>PrepareContext\<close>:
  \<open>if err := r.wait(ctx); err != nil { return nil, err }\<close>, then the method of \<open>r.db\<close>.
\<close>

definition QueryContext ::
  "('c, 'a, 'r, 'l, 'd) env \<Rightarrow> ptr \<Rightarrow> 'c \<Rightarrow> string \<Rightarrow> 'a list \<Rightarrow> ('c, 'a, 'l, 'd) world
    \<Rightarrow> (sql_Rows option \<times> error option) outcome \<times> ('c, 'a, 'l, 'd) world" where
  "QueryContext E r ctx query args w =
     (case wait E r ctx w of
        (Panic, w1) \<Rightarrow> (Panic, w1)
      | (Return (Some err), w1) \<Rightarrow> (Return (None, Some err), w1)
      | (Return None, w1) \<Rightarrow>
          (case deref (facades w1) r of
             None \<Rightarrow> (Panic, w1)
           | Some f \<Rightarrow> sql_DB_QueryContext E (db f) ctx query args w1))"

text \<open>
  \<open>QueryRowContext\<close>: \<open>_ = r.wait(ctx)\<close>, the error of the wait is dropped, then
  \<open>return r.db.QueryRowContext(ctx, query, args...)\<close>.
\<close>

definition QueryRowContext ::
  "('c, 'a, 'r, 'l, 'd) env \<Rightarrow> ptr \<Rightarrow> 'c \<Rightarrow> string \<Rightarrow> 'a list \<Rightarrow> ('c, 'a, 'l, 'd) world
    \<Rightarrow> sql_Row option outcome \<times> ('c, 'a, 'l, 'd) world" where
  "QueryRowContext E r ctx query args w =
     (case wait E r ctx w of
        (Panic, w1) \<Rightarrow> (Panic, w1)
      | (Return _, w1) \<Rightarrow>
          (case deref (facades w1) r of
             None \<Rightarrow> (Panic, w1)
           | Some f \<Rightarrow> sql_DB_QueryRowContext E (db f) ctx query args w1))"

definition ExecContext ::
  "('c, 'a, 'r, 'l, 'd) env \<Rightarrow> ptr \<Rightarrow> 'c \<Rightarrow> string \<Rightarrow> 'a list \<Rightarrow> ('c, 'a, 'l, 'd) world
    \<Rightarrow> (sql_Result option \<times> error option) outcome \<times> ('c, 'a, 'l, 'd) world" where
  "ExecContext E r ctx query args w =
     (case wait E r ctx w of
        (Panic, w1) \<Rightarrow> (Panic, w1)
      | (Return (Some err), w1) \<Rightarrow> (Return (None, Some err), w1)
      | (Return None, w1) \<Rightarrow>
          (case deref (facades w1) r of
             None \<Rightarrow> (Panic, w1)
           | Some f \<Rightarrow> sql_DB_ExecContext E (db f) ctx query args w1))"

definition PrepareContext ::
  "('c, 'a, 'r, 'l, 'd) env \<Rightarrow> ptr \<Rightarrow> 'c \<Rightarrow> string \<Rightarrow> ('c, 'a, 'l, 'd) world
    \<Rightarrow> (sql_Stmt option \<times> error option) outcome \<times> ('c, 'a, 'l, 'd) world" where
  "PrepareContext E r ctx query w =
     (case wait E r ctx w of
        (Panic, w1) \<Rightarrow> (Panic, w1)
      | (Return (Some err), w1) \<Rightarrow> (Return (None, Some err), w1)
      | (Return None, w1) \<Rightarrow>
          (case deref (facades w1) r of
             None \<Rightarrow> (Panic, w1)
           | Some f \<Rightarrow> sql_DB_PrepareContext E (db f) ctx query w1))"

text \<open>\<open>Close\<close>, \<open>Ping\<close> and \<open>Conn\<close> are the method of \<open>r.db\<close> and nothing else.\<close>

definition Close ::
  "('c, 'a, 'r, 'l, 'd) env \<Rightarrow> ptr \<Rightarrow> ('c, 'a, 'l, 'd) world
    \<Rightarrow> error option outcome \<times> ('c, 'a, 'l, 'd) world" where
  "Close E r w =
     (case deref (facades w) r of
        None \<Rightarrow> (Panic, w)
      | Some f \<Rightarrow> sql_DB_Close E (db f) w)"

definition Ping ::
  "('c, 'a, 'r, 'l, 'd) env \<Rightarrow> ptr \<Rightarrow> ('c, 'a, 'l, 'd) world
    \<Rightarrow> error option outcome \<times> ('c, 'a, 'l, 'd) world" where
  "Ping E r w =
     (case deref (facades w) r of
        None \<Rightarrow> (Panic, w)
      | Some f \<Rightarrow> sql_DB_Ping E (db f) w)"

definition Conn ::
  "('c, 'a, 'r, 'l, 'd) env \<Rightarrow> ptr \<Rightarrow> 'c \<Rightarrow> ('c, 'a, 'l, 'd) world
    \<Rightarrow> (sql_Conn option \<times> error option) outcome \<times> ('c, 'a, 'l, 'd) world" where
  "Conn E r ctx w =
     (case deref (facades w) r of
        None \<Rightarrow> (Panic, w)
      | Some f \<Rightarrow> sql_DB_Conn E (db f) ctx w)"

text \<open>\<open>func (r *RateLimitedDB) Raw() *sql.DB { return r.db }\<close>: a read, no call.\<close>

definition Raw :: "ptr \<Rightarrow> ('c, 'a, 'l, 'd) world \<Rightarrow> ptr outcome" where
  "Raw r w = (case deref (facades w) r of None \<Rightarrow> Panic | Some f \<Rightarrow> Return (db f))"

section \<open>Clients\<close>

text \<open>
  A client calls methods on the facade, or on the handle that \<open>Raw\<close> returns. The
  results of the seven methods, in one type, so that a sequence of calls is a list.
\<close>

datatype result =
    Rows_result "sql_Rows option \<times> error option"
  | Row_result "sql_Row option"
  | Exec_result "sql_Result option \<times> error option"
  | Stmt_result "sql_Stmt option \<times> error option"
  | Error_result "error option"
  | Conn_result "sql_Conn option \<times> error option"

text \<open>\<open>tag g\<close> wraps the value a call returned; a panic stays a panic.\<close>

fun tag :: "('x \<Rightarrow> 'y) \<Rightarrow> 'x outcome \<times> 'w \<Rightarrow> 'y outcome \<times> 'w" where
  "tag g (Panic, w) = (Panic, w)"
| "tag g (Return x, w) = (Return (g x), w)"

text \<open>\<open>r.M(...)\<close>, a method of the facade, and \<open>p.M(...)\<close>, the same method of the handle.\<close>

fun on_facade where
  "on_facade E r (QueryContext_op ctx query args) w = tag Rows_result (QueryContext E r ctx query args w)"
| "on_facade E r (QueryRowContext_op ctx query args) w = tag Row_result (QueryRowContext E r ctx query args w)"
| "on_facade E r (ExecContext_op ctx query args) w = tag Exec_result (ExecContext E r ctx query args w)"
| "on_facade E r (PrepareContext_op ctx query) w = tag Stmt_result (PrepareContext E r ctx query w)"
| "on_facade E r Close_op w = tag Error_result (Close E r w)"
| "on_facade E r Ping_op w = tag Error_result (Ping E r w)"
| "on_facade E r (Conn_op ctx) w = tag Conn_result (Conn E r ctx w)"

fun on_handle where
  "on_handle E p (QueryContext_op ctx query args) w = tag Rows_result (sql_DB_QueryContext E p ctx query args w)"
| "on_handle E p (QueryRowContext_op ctx query args) w = tag Row_result (sql_DB_QueryRowContext E p ctx query args w)"
| "on_handle E p (ExecContext_op ctx query args) w = tag Exec_result (sql_DB_ExecContext E p ctx query args w)"
| "on_handle E p (PrepareContext_op ctx query) w = tag Stmt_result (sql_DB_PrepareContext E p ctx query w)"
| "on_handle E p Close_op w = tag Error_result (sql_DB_Close E p w)"
| "on_handle E p Ping_op w = tag Error_result (sql_DB_Ping E p w)"
| "on_handle E p (Conn_op ctx) w = tag Conn_result (sql_DB_Conn E p ctx w)"

text \<open>A call through the facade, or \<open>r.Raw().M(...)\<close>.\<close>

datatype ('c, 'a) client_call = Via_facade "('c, 'a) dbop" | Via_Raw "('c, 'a) dbop"

fun step where
  "step E r (Via_facade c) w = on_facade E r c w"
| "step E r (Via_Raw c) w = (case Raw r w of Panic \<Rightarrow> (Panic, w) | Return p \<Rightarrow> on_handle E p c w)"


text \<open>The log, read per collaborator: the calls on limiters, the calls on database handles.\<close>

fun wait_calls :: "('c, 'a) call list \<Rightarrow> (addr \<times> 'c) list" where
  "wait_calls [] = []"
| "wait_calls (Wait_call a c # cs) = (a, c) # wait_calls cs"
| "wait_calls (DB_call a c # cs) = wait_calls cs"

fun db_calls :: "('c, 'a) call list \<Rightarrow> (addr \<times> ('c, 'a) dbop) list" where
  "db_calls [] = []"
| "db_calls (Wait_call a c # cs) = db_calls cs"
| "db_calls (DB_call a c # cs) = (a, c) # db_calls cs"

text \<open>
  The spec's list of gated operations: \<open>query\<close>, \<open>query_row\<close>, \<open>exec\<close> and \<open>prepare\<close> ask
  the limiter for one token, with their own context; \<open>close\<close>, \<open>ping\<close>,
  \<open>get_raw_connection\<close> and every call through the escape hatch ask for none.
\<close>

fun gate_of :: "('c, 'a) dbop \<Rightarrow> 'c list" where
  "gate_of (QueryContext_op ctx query args) = [ctx]"
| "gate_of (QueryRowContext_op ctx query args) = [ctx]"
| "gate_of (ExecContext_op ctx query args) = [ctx]"
| "gate_of (PrepareContext_op ctx query) = [ctx]"
| "gate_of Close_op = []"
| "gate_of Ping_op = []"
| "gate_of (Conn_op ctx) = []"


text \<open>
  \<open>r\<close> is a facade over the database handle at \<open>da\<close> with the limiter at \<open>la\<close>, both alive:
  what \<open>Wrap\<close> returns for a handle that \<open>sql.Open\<close> returned.
\<close>

definition wrapped :: "ptr \<Rightarrow> addr \<Rightarrow> addr \<Rightarrow> ('c, 'a, 'l, 'd) world \<Rightarrow> bool" where
  "wrapped r da la w \<longleftrightarrow>
     deref (facades w) r = Some \<lparr>db = Some da, limiter = Some la\<rparr> \<and>
     da < length (dbs w) \<and> la < length (limiters w)"



section \<open>A test double\<close>

text \<open>
  Collaborators to run the package on: a context is the error it reports now (\<open>None\<close>
  while it is alive, with a deadline nearer than the next token); a limiter is the
  count of tokens it has left and has no clock; a database handle is open or closed.
\<close>

definition stub_reply :: "error option \<Rightarrow> bool \<Rightarrow> 'x \<Rightarrow> 'x option \<times> error option" where
  "stub_reply ctx live x =
     (case ctx of
        Some e \<Rightarrow> (None, Some e)
      | None \<Rightarrow> if live then (Some x, None) else (None, Some (ErrorString ''sql: database is closed'')))"

definition stub :: "(error option, nat, nat, nat, bool) env" where
  "stub =
     \<lparr>rate_NewLimiter = (\<lambda>limit burst. nat burst),
      Limiter_Wait = (\<lambda>ctx l.
        case ctx of
          Some e \<Rightarrow> (Some e, l)
        | None \<Rightarrow>
            if 0 < l then (None, l - 1)
            else (Some (ErrorString ''rate: Wait(n=1) would exceed context deadline''), l)),
      DB_QueryContext = (\<lambda>ctx query args d. (stub_reply ctx d (Rows_ref 0), d)),
      DB_QueryRowContext = (\<lambda>ctx query args d.
        (Some (Row (snd (stub_reply ctx d ())) (fst (stub_reply ctx d (Rows_ref 0)))), d)),
      DB_ExecContext = (\<lambda>ctx query args d. (stub_reply ctx d (Result_ref 0), d)),
      DB_PrepareContext = (\<lambda>ctx query d. (stub_reply ctx d (Stmt_ref 0), d)),
      DB_Close = (\<lambda>d. (None, False)),
      DB_Ping = (\<lambda>d. (snd (stub_reply None d ()), d)),
      DB_Conn = (\<lambda>ctx d. (stub_reply ctx d (Conn_ref 0), d))\<rparr>"

definition stub_world :: "nat \<Rightarrow> (error option, nat, nat, bool) world" where
  "stub_world tokens =
     \<lparr>facades = [\<lparr>db = Some 0, limiter = Some 0\<rparr>], limiters = [tokens], dbs = [True], calls = []\<rparr>"

section \<open>Frame lemmas\<close>

lemma wait_calls_append [simp]: "wait_calls (xs @ ys) = wait_calls xs @ wait_calls ys"
  by (induction xs rule: wait_calls.induct) simp_all

lemma db_calls_append [simp]: "db_calls (xs @ ys) = db_calls xs @ db_calls ys"
  by (induction xs rule: db_calls.induct) simp_all

lemma wait_frame:
  "wait E r ctx w = (x, w1) \<Longrightarrow>
     facades w1 = facades w \<and> dbs w1 = dbs w \<and> db_calls (calls w1) = db_calls (calls w)
     \<and> length (limiters w1) = length (limiters w)"
  by (auto simp: wait_def rate_Limiter_Wait_def Let_def split: option.splits if_splits prod.splits)

lemma sql_DB_call_frame:
  "sql_DB_call f c p w = (x, w1) \<Longrightarrow>
     facades w1 = facades w \<and> limiters w1 = limiters w \<and> wait_calls (calls w1) = wait_calls (calls w)
     \<and> length (dbs w1) = length (dbs w)"
  by (auto simp: sql_DB_call_def Let_def split: option.splits if_splits prod.splits)

lemma sql_DB_call_bypass:
  "limiters (snd (sql_DB_call f c p w)) = limiters w
   \<and> wait_calls (calls (snd (sql_DB_call f c p w))) = wait_calls (calls w)"
  by (simp add: sql_DB_call_def Let_def split: option.splits prod.splits)

lemma sql_DB_call_live:
  "da < length (dbs w) \<Longrightarrow>
     sql_DB_call f c (Some da) w =
       (Return (fst (f (dbs w ! da))),
        w\<lparr>dbs := (dbs w)[da := snd (f (dbs w ! da))], calls := calls w @ [DB_call da c]\<rparr>)"
  by (simp add: sql_DB_call_def Let_def split: prod.splits)

lemma wait_wrapped:
  "wrapped r da la w \<Longrightarrow>
     wait E r ctx w =
       (Return (fst (Limiter_Wait E ctx (limiters w ! la))),
        w\<lparr>limiters := (limiters w)[la := snd (Limiter_Wait E ctx (limiters w ! la))],
          calls := calls w @ [Wait_call la ctx]\<rparr>)"
  by (simp add: wrapped_def wait_def rate_Limiter_Wait_def Let_def split: prod.splits)


lemma stub_world_is_Wrap:
  "Wrap stub (Some 0) 2 1 \<lparr>facades = [], limiters = [], dbs = [True], calls = []\<rparr> = (Some 0, stub_world 1)"
  by (simp add: Wrap_def rate_NewLimiter_call_def stub_def stub_world_def)

lemma snd_tag [simp]: "snd (tag g x) = snd x"
  by (cases "(g, x)" rule: tag.cases) simp_all

lemma fst_tag_Panic [simp]: "fst (tag g x) = Panic \<longleftrightarrow> fst x = Panic"
  by (cases "(g, x)" rule: tag.cases) simp_all

lemma sql_DB_call_facades [simp]: "facades (snd (sql_DB_call f c p w)) = facades w"
  by (simp add: sql_DB_call_def Let_def split: option.splits prod.splits)

lemma wait_facades [simp]: "facades (snd (wait E r ctx w)) = facades w"
  using wait_frame [of E r ctx w] by (cases "wait E r ctx w") simp

lemma on_handle_facades [simp]: "facades (snd (on_handle E p c w)) = facades w"
  by (cases c)
     (simp_all add: sql_DB_QueryContext_def sql_DB_QueryRowContext_def sql_DB_ExecContext_def
        sql_DB_PrepareContext_def sql_DB_Close_def sql_DB_Ping_def sql_DB_Conn_def)

lemma QueryContext_facades [simp]: "facades (snd (QueryContext E r ctx query args w)) = facades w"
  using wait_facades [of E r ctx w]
  by (cases "wait E r ctx w")
     (simp add: QueryContext_def sql_DB_QueryContext_def split: outcome.splits option.splits)

lemma QueryRowContext_facades [simp]: "facades (snd (QueryRowContext E r ctx query args w)) = facades w"
  using wait_facades [of E r ctx w]
  by (cases "wait E r ctx w")
     (simp add: QueryRowContext_def sql_DB_QueryRowContext_def split: outcome.splits option.splits)

lemma ExecContext_facades [simp]: "facades (snd (ExecContext E r ctx query args w)) = facades w"
  using wait_facades [of E r ctx w]
  by (cases "wait E r ctx w")
     (simp add: ExecContext_def sql_DB_ExecContext_def split: outcome.splits option.splits)

lemma PrepareContext_facades [simp]: "facades (snd (PrepareContext E r ctx query w)) = facades w"
  using wait_facades [of E r ctx w]
  by (cases "wait E r ctx w")
     (simp add: PrepareContext_def sql_DB_PrepareContext_def split: outcome.splits option.splits)

lemma on_facade_facades [simp]: "facades (snd (on_facade E r c w)) = facades w"
  by (cases c)
     (simp_all add: Close_def Ping_def Conn_def sql_DB_Close_def sql_DB_Ping_def sql_DB_Conn_def
        split: option.splits)

lemma step_facades: "facades (snd (step E r k w)) = facades w"
  by (cases k) (simp_all add: Raw_def split: option.splits)




lemma Close_wrapped:
  assumes "wrapped r da la w"
  shows "Close E r w =
           (Return (fst (DB_Close E (dbs w ! da))),
            w\<lparr>dbs := (dbs w)[da := snd (DB_Close E (dbs w ! da))], calls := calls w @ [DB_call da Close_op]\<rparr>)"
  using assms
  by (simp add: wrapped_def Close_def sql_DB_Close_def sql_DB_call_live)




section \<open>The claims\<close>

text \<open>
  C1. When the limiter of the facade refuses the token with an error \<open>e\<close> (the context was
  cancelled, or its deadline comes first), \<open>QueryContext\<close>, \<open>ExecContext\<close> and
  \<open>PrepareContext\<close> return \<open>(nil, e)\<close>: the very error of the acquire step, so
  \<open>Canceled\<close> stays \<open>Canceled\<close> and \<open>DeadlineExceeded\<close> stays \<open>DeadlineExceeded\<close>. The
  world they leave differs from the one they found by the call on the limiter only: no
  database handle has changed and the log has no new call on a database handle.
\<close>

theorem gated_admission_failure:
  assumes "deref (facades w) r = Some f" and "limiter f = Some la" and "la < length (limiters w)"
    and "Limiter_Wait E ctx (limiters w ! la) = (Some e, l')"
    and "w1 = w\<lparr>limiters := (limiters w)[la := l'], calls := calls w @ [Wait_call la ctx]\<rparr>"
  shows "QueryContext E r ctx query args w = (Return (None, Some e), w1)
       \<and> ExecContext E r ctx query args w = (Return (None, Some e), w1)
       \<and> PrepareContext E r ctx query w = (Return (None, Some e), w1)
       \<and> dbs w1 = dbs w
       \<and> db_calls (calls w1) = db_calls (calls w)"
proof -
  have "wait E r ctx w = (Return (Some e), w1)"
    using assms by (simp add: wait_def rate_Limiter_Wait_def)
  then show ?thesis
    using assms(5) by (simp add: QueryContext_def ExecContext_def PrepareContext_def)
qed

theorem gated_admission_failure_witness:
  "Limiter_Wait stub (Some Canceled) (limiters (stub_world 1) ! 0) = (Some Canceled, 1)
   \<and> QueryContext stub (Some 0) (Some Canceled) ''SELECT 1'' [] (stub_world 1)
       = (Return (None, Some Canceled), (stub_world 1)\<lparr>calls := [Wait_call 0 (Some Canceled)]\<rparr>)
   \<and> ExecContext stub (Some 0) (Some DeadlineExceeded) ''DELETE'' [7] (stub_world 0)
       = (Return (None, Some DeadlineExceeded), (stub_world 0)\<lparr>calls := [Wait_call 0 (Some DeadlineExceeded)]\<rparr>)
   \<and> PrepareContext stub (Some 0) None ''SELECT 1'' (stub_world 0)
       = (Return (None, Some (ErrorString ''rate: Wait(n=1) would exceed context deadline'')),
          (stub_world 0)\<lparr>calls := [Wait_call 0 None]\<rparr>)"
  using gated_admission_failure [of "stub_world 1" "Some 0" "\<lparr>db = Some 0, limiter = Some 0\<rparr>" 0
      stub "Some Canceled" Canceled 1 "(stub_world 1)\<lparr>calls := [Wait_call 0 (Some Canceled)]\<rparr>" "''SELECT 1''" "[]"]
    gated_admission_failure [of "stub_world 0" "Some 0" "\<lparr>db = Some 0, limiter = Some 0\<rparr>" 0
      stub "Some DeadlineExceeded" DeadlineExceeded 0 "(stub_world 0)\<lparr>calls := [Wait_call 0 (Some DeadlineExceeded)]\<rparr>" "''DELETE''" "[7]"]
    gated_admission_failure [of "stub_world 0" "Some 0" "\<lparr>db = Some 0, limiter = Some 0\<rparr>" 0
      stub None "ErrorString ''rate: Wait(n=1) would exceed context deadline''" 0 "(stub_world 0)\<lparr>calls := [Wait_call 0 None]\<rparr>" "''SELECT 1''" "[]"]
  by (simp add: stub_def stub_world_def)

text \<open>
  C4. When the acquire step admits the call, each of the four gated operations returns
  what the method of the same name of the underlying handle returns for the same
  context, statement and arguments, value and error as they are; the handle moves on
  as that one call makes it, and the log gains that one call, with the arguments
  unchanged, and no second one.
\<close>

theorem admitted_delegation:
  assumes "wait E r ctx w = (Return None, w1)"
    and "Raw r w = Return (Some da)" and "da < length (dbs w)"
  shows "QueryContext E r ctx query args w =
           (Return (fst (DB_QueryContext E ctx query args (dbs w ! da))),
            w1\<lparr>dbs := (dbs w)[da := snd (DB_QueryContext E ctx query args (dbs w ! da))],
              calls := calls w1 @ [DB_call da (QueryContext_op ctx query args)]\<rparr>)
       \<and> QueryRowContext E r ctx query args w =
           (Return (fst (DB_QueryRowContext E ctx query args (dbs w ! da))),
            w1\<lparr>dbs := (dbs w)[da := snd (DB_QueryRowContext E ctx query args (dbs w ! da))],
              calls := calls w1 @ [DB_call da (QueryRowContext_op ctx query args)]\<rparr>)
       \<and> ExecContext E r ctx query args w =
           (Return (fst (DB_ExecContext E ctx query args (dbs w ! da))),
            w1\<lparr>dbs := (dbs w)[da := snd (DB_ExecContext E ctx query args (dbs w ! da))],
              calls := calls w1 @ [DB_call da (ExecContext_op ctx query args)]\<rparr>)
       \<and> PrepareContext E r ctx query w =
           (Return (fst (DB_PrepareContext E ctx query (dbs w ! da))),
            w1\<lparr>dbs := (dbs w)[da := snd (DB_PrepareContext E ctx query (dbs w ! da))],
              calls := calls w1 @ [DB_call da (PrepareContext_op ctx query)]\<rparr>)"
proof -
  from wait_frame [OF assms(1)]
  have fr: "facades w1 = facades w" "dbs w1 = dbs w" by simp_all
  from assms(2) obtain f where f: "deref (facades w) r = Some f" "db f = Some da"
    by (auto simp: Raw_def split: option.splits)
  have live: "da < length (dbs w1)" using assms(3) fr by simp
  show ?thesis
    using assms(1) f
    by (simp add: QueryContext_def QueryRowContext_def ExecContext_def PrepareContext_def
        sql_DB_QueryContext_def sql_DB_QueryRowContext_def sql_DB_ExecContext_def
        sql_DB_PrepareContext_def sql_DB_call_live [OF live] fr)
qed

theorem admitted_delegation_witness:
  "wait stub (Some 0) None (stub_world 1) = (Return None, (stub_world 0)\<lparr>calls := [Wait_call 0 None]\<rparr>)
   \<and> Raw (Some 0) (stub_world 1) = Return (Some 0)
   \<and> QueryContext stub (Some 0) None ''SELECT 1'' [4] (stub_world 1) =
       (Return (Some (Rows_ref 0), None),
        (stub_world 0)\<lparr>calls := [Wait_call 0 None, DB_call 0 (QueryContext_op None ''SELECT 1'' [4])]\<rparr>)"
proof -
  have h: "wait stub (Some 0) None (stub_world 1) = (Return None, (stub_world 0)\<lparr>calls := [Wait_call 0 None]\<rparr>)"
    by (simp add: wait_def rate_Limiter_Wait_def stub_def stub_world_def)
  have k: "Raw (Some 0) (stub_world 1) = Return (Some 0)"
    by (simp add: Raw_def stub_world_def)
  have l: "0 < length (dbs (stub_world 1))" by (simp add: stub_world_def)
  show ?thesis
    using admitted_delegation [OF h k l, of "''SELECT 1''" "[4]"] h k
    by (simp add: stub_def stub_world_def stub_reply_def)
qed




text \<open>
  C3. The comment in \<open>QueryRowContext\<close> says that the error of the wait is returned when
  \<open>Scan\<close> is called on the row; the code drops it. On the test double, with no token
  left and a context that is still alive, the wait fails, the query runs all the same
  and the row that comes back carries no error.
\<close>

theorem QueryRowContext_drops_wait_error:
  "wait stub (Some 0) None (stub_world 0)
     = (Return (Some (ErrorString ''rate: Wait(n=1) would exceed context deadline'')),
        (stub_world 0)\<lparr>calls := [Wait_call 0 None]\<rparr>)
   \<and> QueryRowContext stub (Some 0) None ''SELECT 1'' [] (stub_world 0)
     = (Return (Some (Row None (Some (Rows_ref 0)))),
        (stub_world 0)\<lparr>calls := [Wait_call 0 None, DB_call 0 (QueryRowContext_op None ''SELECT 1'' [])]\<rparr>)"
  by (simp add: QueryRowContext_def wait_def rate_Limiter_Wait_def sql_DB_QueryRowContext_def
      sql_DB_call_def stub_def stub_world_def stub_reply_def)

text \<open>
  C5. \<open>Raw\<close> on the facade that \<open>Wrap\<close> made returns the pointer that \<open>Wrap\<close> was given:
  the same address, \<open>nil\<close> included, whatever the rate and the burst. A method called on
  that handle directly changes no limiter and adds no call on a limiter to the log.
\<close>

theorem Raw_of_Wrap:
  "Raw (fst (Wrap E sqldb limit burst w)) (snd (Wrap E sqldb limit burst w)) = Return sqldb
   \<and> limiters (snd (on_handle E sqldb c w')) = limiters w'
   \<and> wait_calls (calls (snd (on_handle E sqldb c w'))) = wait_calls (calls w')"
proof -
  have a: "Raw (fst (Wrap E sqldb limit burst w)) (snd (Wrap E sqldb limit burst w)) = Return sqldb"
    by (simp add: Raw_def Wrap_def rate_NewLimiter_call_def)
  have c: "limiters (snd (on_handle E sqldb c w')) = limiters w'
      \<and> wait_calls (calls (snd (on_handle E sqldb c w'))) = wait_calls (calls w')"
    by (cases c)
       (simp_all add: sql_DB_call_bypass sql_DB_QueryContext_def sql_DB_QueryRowContext_def
          sql_DB_ExecContext_def sql_DB_PrepareContext_def sql_DB_Close_def sql_DB_Ping_def
          sql_DB_Conn_def)
  from a c show ?thesis by simp
qed

text \<open>
  C6. On a facade over a live handle, \<open>Close\<close>, \<open>Ping\<close> and \<open>Conn\<close> return what the method
  of the handle returns, change the world as that one call does, and never reach the
  limiter: no limiter changes and the log has no new call on a limiter. Nothing is
  assumed of the limiter, which may be out of tokens, or \<open>nil\<close>.
\<close>

theorem ungated_delegation:
  assumes "Raw r w = Return (Some da)" and "da < length (dbs w)"
  shows "Close E r w =
           (Return (fst (DB_Close E (dbs w ! da))),
            w\<lparr>dbs := (dbs w)[da := snd (DB_Close E (dbs w ! da))], calls := calls w @ [DB_call da Close_op]\<rparr>)
       \<and> Ping E r w =
           (Return (fst (DB_Ping E (dbs w ! da))),
            w\<lparr>dbs := (dbs w)[da := snd (DB_Ping E (dbs w ! da))], calls := calls w @ [DB_call da Ping_op]\<rparr>)
       \<and> Conn E r ctx w =
           (Return (fst (DB_Conn E ctx (dbs w ! da))),
            w\<lparr>dbs := (dbs w)[da := snd (DB_Conn E ctx (dbs w ! da))], calls := calls w @ [DB_call da (Conn_op ctx)]\<rparr>)
       \<and> limiters (snd (Close E r w)) = limiters w \<and> wait_calls (calls (snd (Close E r w))) = wait_calls (calls w)
       \<and> limiters (snd (Ping E r w)) = limiters w \<and> wait_calls (calls (snd (Ping E r w))) = wait_calls (calls w)
       \<and> limiters (snd (Conn E r ctx w)) = limiters w \<and> wait_calls (calls (snd (Conn E r ctx w))) = wait_calls (calls w)"
proof -
  from assms(1) obtain f where f: "deref (facades w) r = Some f" "db f = Some da"
    by (auto simp: Raw_def split: option.splits)
  show ?thesis
    using f
    by (simp add: Close_def Ping_def Conn_def sql_DB_Close_def sql_DB_Ping_def sql_DB_Conn_def
        sql_DB_call_live [OF assms(2)])
qed

theorem ungated_delegation_witness:
  "Raw (Some 0) (stub_world 0) = Return (Some 0)
   \<and> Close stub (Some 0) (stub_world 0)
       = (Return None, (stub_world 0)\<lparr>dbs := [False], calls := [DB_call 0 Close_op]\<rparr>)
   \<and> Ping stub (Some 0) (stub_world 0)
       = (Return None, (stub_world 0)\<lparr>calls := [DB_call 0 Ping_op]\<rparr>)
   \<and> Conn stub (Some 0) (Some Canceled) (stub_world 0)
       = (Return (None, Some Canceled), (stub_world 0)\<lparr>calls := [DB_call 0 (Conn_op (Some Canceled))]\<rparr>)"
proof -
  have h: "Raw (Some 0) (stub_world 0) = Return (Some 0)"
    by (simp add: Raw_def stub_world_def)
  have l: "0 < length (dbs (stub_world 0))" by (simp add: stub_world_def)
  show ?thesis
    using h ungated_delegation [OF h l, of stub "Some Canceled"]
    by (simp add: stub_def stub_world_def stub_reply_def)
qed

text \<open>
  C8. \<open>Wrap\<close> is total and returns no error: for every handle (\<open>nil\<close> too), every rate and
  every burst (zero and negative too) it returns a pointer that is not \<open>nil\<close>, to a new
  facade whose \<open>db\<close> is the handle as given and whose \<open>limiter\<close> is a new limiter, the one
  \<open>rate.NewLimiter\<close> builds from that rate and burst. Nothing that existed has changed.
\<close>

theorem Wrap_unchecked:
  "fst (Wrap E sqldb limit burst w) = Some (length (facades w))
   \<and> deref (facades w) (fst (Wrap E sqldb limit burst w)) = None
   \<and> deref (facades (snd (Wrap E sqldb limit burst w))) (fst (Wrap E sqldb limit burst w))
       = Some \<lparr>db = sqldb, limiter = Some (length (limiters w))\<rparr>
   \<and> deref (limiters w) (Some (length (limiters w))) = None
   \<and> deref (limiters (snd (Wrap E sqldb limit burst w))) (Some (length (limiters w)))
       = Some (rate_NewLimiter E limit burst)
   \<and> facades (snd (Wrap E sqldb limit burst w)) = facades w @ [\<lparr>db = sqldb, limiter = Some (length (limiters w))\<rparr>]
   \<and> limiters (snd (Wrap E sqldb limit burst w)) = limiters w @ [rate_NewLimiter E limit burst]
   \<and> dbs (snd (Wrap E sqldb limit burst w)) = dbs w
   \<and> calls (snd (Wrap E sqldb limit burst w)) = calls w"
  by (simp add: Wrap_def rate_NewLimiter_call_def)

text \<open>
  C9. On a facade over a live handle, \<open>QueryRowContext\<close> returns the row of the
  underlying \<open>QueryRowContext\<close> whatever the wait returned: the log gains the wait and
  then exactly one call on the handle, with the same context, statement and arguments.
\<close>

theorem QueryRowContext_always_delegates:
  assumes "wrapped r da la w"
  shows "fst (QueryRowContext E r ctx query args w) = Return (fst (DB_QueryRowContext E ctx query args (dbs w ! da)))
       \<and> calls (snd (QueryRowContext E r ctx query args w))
           = calls w @ [Wait_call la ctx, DB_call da (QueryRowContext_op ctx query args)]
       \<and> db_calls (calls (snd (QueryRowContext E r ctx query args w)))
           = db_calls (calls w) @ [(da, QueryRowContext_op ctx query args)]
       \<and> dbs (snd (QueryRowContext E r ctx query args w))
           = (dbs w)[da := snd (DB_QueryRowContext E ctx query args (dbs w ! da))]"
proof -
  from assms have f: "deref (facades w) r = Some \<lparr>db = Some da, limiter = Some la\<rparr>"
    and live: "da < length (dbs w)"
    by (simp_all add: wrapped_def)
  show ?thesis
    using f live
    by (simp add: QueryRowContext_def wait_wrapped [OF assms] sql_DB_QueryRowContext_def
        sql_DB_call_live)
qed

theorem QueryRowContext_always_delegates_witness:
  "wrapped (Some 0) 0 0 (stub_world 0)
   \<and> fst (wait stub (Some 0) (Some Canceled) (stub_world 0)) = Return (Some Canceled)
   \<and> fst (QueryRowContext stub (Some 0) (Some Canceled) ''SELECT 1'' [] (stub_world 0))
       = Return (Some (Row (Some Canceled) None))
   \<and> calls (snd (QueryRowContext stub (Some 0) (Some Canceled) ''SELECT 1'' [] (stub_world 0)))
       = [Wait_call 0 (Some Canceled), DB_call 0 (QueryRowContext_op (Some Canceled) ''SELECT 1'' [])]"
proof -
  have h: "wrapped (Some 0) 0 0 (stub_world 0)"
    by (simp add: wrapped_def stub_world_def)
  have k: "fst (wait stub (Some 0) (Some Canceled) (stub_world 0)) = Return (Some Canceled)"
    by (simp add: wait_wrapped [OF h] stub_def)
  show ?thesis
    using h k QueryRowContext_always_delegates [OF h, of stub "Some Canceled" "''SELECT 1''" "[]"]
    by (simp add: stub_def stub_world_def stub_reply_def)
qed

text \<open>
  C10. No call of a client, through the facade or through \<open>Raw\<close>, changes a field of
  any facade. After \<open>Close\<close> the facade still holds the same handle and the same
  limiter, which \<open>Close\<close> has not touched; a gated operation called then first waits on
  that limiter and, once admitted, is the method of the closed handle: it returns
  whatever the underlying connection reports in the state \<open>Close\<close> left it in.
\<close>

theorem facade_has_no_state:
  assumes "wrapped r da la w" and "gate_of c = [ctx]"
    and "w1 = snd (Close E r w)" and "w2 = snd (wait E r ctx w1)"
  shows "facades (snd (step E r k w')) = facades w'
       \<and> facades w1 = facades w
       \<and> limiters w1 = limiters w
       \<and> wrapped r da la w1
       \<and> dbs w1 ! da = snd (DB_Close E (dbs w ! da))
       \<and> fst (wait E r ctx w1) = Return (fst (Limiter_Wait E ctx (limiters w ! la)))
       \<and> calls w2 = calls w @ [DB_call da Close_op, Wait_call la ctx]
       \<and> dbs w2 = dbs w1
       \<and> take (length (calls w2)) (calls (snd (on_facade E r c w1))) = calls w2
       \<and> (fst (Limiter_Wait E ctx (limiters w ! la)) = None
            \<longrightarrow> on_facade E r c w1 = on_handle E (Some da) c w2)"
proof -
  from assms(1) have f: "deref (facades w) r = Some \<lparr>db = Some da, limiter = Some la\<rparr>"
    and live: "da < length (dbs w)" and lv: "la < length (limiters w)"
    by (simp_all add: wrapped_def)
  have w1: "w1 = w\<lparr>dbs := (dbs w)[da := snd (DB_Close E (dbs w ! da))], calls := calls w @ [DB_call da Close_op]\<rparr>"
    using assms(3) Close_wrapped [OF assms(1), of E] by simp
  have wr1: "wrapped r da la w1"
    using f live lv by (simp add: w1 wrapped_def)
  have f1: "deref (facades w1) r = Some \<lparr>db = Some da, limiter = Some la\<rparr>"
    and live1: "da < length (dbs w1)"
    using wr1 by (simp_all add: wrapped_def)
  have wt: "wait E r ctx w1 =
       (Return (fst (Limiter_Wait E ctx (limiters w ! la))),
        w1\<lparr>limiters := (limiters w)[la := snd (Limiter_Wait E ctx (limiters w ! la))],
          calls := calls w1 @ [Wait_call la ctx]\<rparr>)"
    using wait_wrapped [OF wr1, of E ctx] by (simp add: w1)
  have w2: "w2 = w1\<lparr>limiters := (limiters w)[la := snd (Limiter_Wait E ctx (limiters w ! la))],
          calls := calls w1 @ [Wait_call la ctx]\<rparr>"
    using assms(4) wt by simp
  have live2: "da < length (dbs w2)" using live1 by (simp add: w2)
  have f2: "deref (facades w2) r = Some \<lparr>db = Some da, limiter = Some la\<rparr>"
    using f1 by (simp add: w2)
  have pre: "take (length (calls w2)) (calls (snd (on_facade E r c w1))) = calls w2"
    using assms(2) f2
    by (cases c; cases "fst (Limiter_Wait E ctx (limiters w ! la))")
       (simp_all add: QueryContext_def QueryRowContext_def ExecContext_def PrepareContext_def
          wt w2 [symmetric] sql_DB_QueryContext_def sql_DB_QueryRowContext_def
          sql_DB_ExecContext_def sql_DB_PrepareContext_def sql_DB_call_live [OF live2])
  have del: "on_facade E r c w1 = on_handle E (Some da) c w2"
    if "fst (Limiter_Wait E ctx (limiters w ! la)) = None"
    using assms(2) f2 that
    by (cases c)
       (simp_all add: QueryContext_def QueryRowContext_def ExecContext_def PrepareContext_def
          wt w2 [symmetric])
  show ?thesis
    using wr1 pre del
    by (simp add: step_facades wt) (simp add: w1 w2 live)
qed

theorem facade_has_no_state_witness:
  "wrapped (Some 0) 0 0 (stub_world 1)
   \<and> gate_of (QueryContext_op None ''SELECT 1'' [] :: (error option, nat) dbop) = [None]
   \<and> facades (snd (Close stub (Some 0) (stub_world 1))) = facades (stub_world 1)
   \<and> fst (Limiter_Wait stub None (limiters (stub_world 1) ! 0)) = None
   \<and> on_facade stub (Some 0) (QueryContext_op None ''SELECT 1'' []) (snd (Close stub (Some 0) (stub_world 1)))
       = (Return (Rows_result (None, Some (ErrorString ''sql: database is closed''))),
          \<lparr>facades = [\<lparr>db = Some 0, limiter = Some 0\<rparr>], limiters = [0], dbs = [False],
           calls = [DB_call 0 Close_op, Wait_call 0 None, DB_call 0 (QueryContext_op None ''SELECT 1'' [])]\<rparr>)"
proof -
  have h: "wrapped (Some 0) 0 0 (stub_world 1)"
    by (simp add: wrapped_def stub_world_def)
  have g: "gate_of (QueryContext_op None ''SELECT 1'' [] :: (error option, nat) dbop) = [None]"
    by simp
  have a: "fst (Limiter_Wait stub None (limiters (stub_world 1) ! 0)) = None"
    by (simp add: stub_def stub_world_def)
  have c: "snd (Close stub (Some 0) (stub_world 1))
      = (stub_world 1)\<lparr>dbs := [False], calls := [DB_call 0 Close_op]\<rparr>"
    using Close_wrapped [OF h, of stub] by (simp add: stub_def stub_world_def)
  have w: "snd (wait stub (Some 0) None ((stub_world 1)\<lparr>dbs := [False], calls := [DB_call 0 Close_op]\<rparr>))
      = (stub_world 0)\<lparr>dbs := [False], calls := [DB_call 0 Close_op, Wait_call 0 None]\<rparr>"
    by (simp add: wait_def rate_Limiter_Wait_def stub_def stub_world_def)
  from facade_has_no_state [OF h g refl refl, of stub "Via_facade Close_op" "stub_world 1"] a
  have d: "on_facade stub (Some 0) (QueryContext_op None ''SELECT 1'' []) (snd (Close stub (Some 0) (stub_world 1)))
      = on_handle stub (Some 0) (QueryContext_op None ''SELECT 1'' [])
          (snd (wait stub (Some 0) None (snd (Close stub (Some 0) (stub_world 1)))))"
    and fc: "facades (snd (Close stub (Some 0) (stub_world 1))) = facades (stub_world 1)"
    by simp_all
  have ev: "on_handle stub (Some 0) (QueryContext_op None ''SELECT 1'' [])
          (snd (wait stub (Some 0) None (snd (Close stub (Some 0) (stub_world 1)))))
      = (Return (Rows_result (None, Some (ErrorString ''sql: database is closed''))),
          \<lparr>facades = [\<lparr>db = Some 0, limiter = Some 0\<rparr>], limiters = [0], dbs = [False],
           calls = [DB_call 0 Close_op, Wait_call 0 None, DB_call 0 (QueryContext_op None ''SELECT 1'' [])]\<rparr>)"
    unfolding c w
    by (simp add: sql_DB_QueryContext_def sql_DB_call_def stub_def stub_world_def stub_reply_def)
  from h g fc a d [THEN trans, OF ev] show ?thesis
    by (intro conjI)
qed

end
